theory Spec2Isabelle
  imports Complex_Main "HOL-Library.AList"
begin

section \<open>Values, exceptions and dictionaries\<close>

text \<open>
  The tools of \<^verbatim>\<open>server.py\<close> return Python dictionaries (or a pydantic model) built from
  strings, numbers, booleans, lists and nested dictionaries. A dictionary is an association
  list in insertion order. A Python \<^verbatim>\<open>str\<close> is a \<^typ>\<open>string\<close>, one list element per
  character, so that \<^verbatim>\<open>len\<close> is \<^const>\<open>length\<close>. The type parameter \<open>'f\<close> is Python's
  \<^verbatim>\<open>float\<close>.

  A raised exception is a value: every operation that can raise returns \<open>exn + 'a\<close>, with
  \<open>Inl\<close> for the exception; \<open>str_of\<close> is \<^verbatim>\<open>str(e)\<close>. A tool returns \<open>exn + dict\<close>:
  \<open>Inl e\<close> is an exception that leaves the tool function.
\<close>

datatype exn = Exception (str_of: string)

datatype 'f jvalue =
    JStr string
  | JFloat 'f
  | JInt int
  | JBool bool
  | JList "'f jvalue list"
  | JDict "(string \<times> 'f jvalue) list"

type_synonym 'f dict = "(string \<times> 'f jvalue) list"

definition has_key :: "'f dict \<Rightarrow> string \<Rightarrow> bool" where
  "has_key d k = (map_of d k \<noteq> None)"


section \<open>The calculator tool\<close>

record 'f CalculationRequest =
  operation :: string
  a :: 'f
  b :: 'f

text \<open>
  Float arithmetic is a parameter: \<open>fadd\<close>, \<open>fsub\<close>, \<open>fmul\<close> are Python's \<^verbatim>\<open>+\<close>, \<^verbatim>\<open>-\<close>,
  \<^verbatim>\<open>*\<close> on floats, which never raise; \<open>fdiv\<close> is the quotient for a divisor that is not
  zero; \<open>eq_zero x\<close> is \<^verbatim>\<open>x == 0\<close>. Python's \<^verbatim>\<open>/\<close> on floats raises ZeroDivisionError
  exactly when the divisor compares equal to zero: that is \<open>truediv\<close>.
\<close>

record 'f float_ops =
  fadd :: "'f \<Rightarrow> 'f \<Rightarrow> 'f"
  fsub :: "'f \<Rightarrow> 'f \<Rightarrow> 'f"
  fmul :: "'f \<Rightarrow> 'f \<Rightarrow> 'f"
  fdiv :: "'f \<Rightarrow> 'f \<Rightarrow> 'f"
  eq_zero :: "'f \<Rightarrow> bool"

definition truediv :: "'f float_ops \<Rightarrow> 'f \<Rightarrow> 'f \<Rightarrow> exn + 'f" where
  "truediv ops x y =
     (if eq_zero ops y then Inl (Exception ''float division by zero'')
      else Inr (fdiv ops x y))"

definition exact_ops :: "real float_ops" where
  "exact_ops = \<lparr>fadd = (+), fsub = (-), fmul = (*), fdiv = (/), eq_zero = (\<lambda>x. x = 0)\<rparr>"

definition calc_inputs :: "'f CalculationRequest \<Rightarrow> 'f jvalue" where
  "calc_inputs request = JDict [(''a'', JFloat (a request)), (''b'', JFloat (b request))]"

definition calc_success :: "'f CalculationRequest \<Rightarrow> 'f \<Rightarrow> 'f dict" where
  "calc_success request result =
     [(''result'', JFloat result),
      (''operation'', JStr (operation request)),
      (''inputs'', calc_inputs request)]"

text \<open>The body of the \<^verbatim>\<open>try\<close> block of \<^verbatim>\<open>calculator\<close> (lines 49 to 75).\<close>

definition calculator_try :: "'f float_ops \<Rightarrow> 'f CalculationRequest \<Rightarrow> exn + 'f dict" where
  "calculator_try ops request =
     (if operation request = ''add'' then
        Inr (calc_success request (fadd ops (a request) (b request)))
      else if operation request = ''subtract'' then
        Inr (calc_success request (fsub ops (a request) (b request)))
      else if operation request = ''multiply'' then
        Inr (calc_success request (fmul ops (a request) (b request)))
      else if operation request = ''divide'' then
        (if eq_zero ops (b request) then
           Inr [(''error'', JStr ''Division by zero is not allowed''),
                (''operation'', JStr (operation request)),
                (''inputs'', calc_inputs request)]
         else
           (case truediv ops (a request) (b request) of
              Inl e \<Rightarrow> Inl e
            | Inr result \<Rightarrow> Inr (calc_success request result)))
      else
        Inr [(''error'', JStr (''Unknown operation: '' @ operation request)),
             (''supported_operations'',
                JList [JStr ''add'', JStr ''subtract'', JStr ''multiply'', JStr ''divide''])])"

text \<open>The whole tool: the \<^verbatim>\<open>except Exception\<close> handler of lines 76 to 81 around the body.\<close>

definition calculator :: "'f float_ops \<Rightarrow> 'f CalculationRequest \<Rightarrow> exn + 'f dict" where
  "calculator ops request =
     (case calculator_try ops request of
        Inr d \<Rightarrow> Inr d
      | Inl e \<Rightarrow>
          Inr [(''error'', JStr (''Calculation error: '' @ str_of e)),
               (''operation'', JStr (operation request)),
               (''inputs'', calc_inputs request)])"


section \<open>The process environment\<close>

text \<open>
  What the tools read from outside: the filesystem through \<^verbatim>\<open>pathlib\<close>, the environment
  variables, the working directory, the clock and the constants of the runtime. Each
  library call is a field of the record; a call that can raise returns \<open>exn + 'a\<close>.
  A path is the text of the \<^verbatim>\<open>Path\<close> object. \<^verbatim>\<open>Path.glob\<close> is a generator: it yields
  paths one at a time and ends normally (\<open>Stop\<close>) or by raising (\<open>Raised\<close>), for
  instance on an empty pattern.
\<close>

type_synonym path = string

datatype 'a gen = Stop | Yield 'a "'a gen" | Raised exn

record 'f stat_result =
  st_size :: int
  st_mtime :: 'f

record 'f world =
  exists :: "path \<Rightarrow> exn + bool"
  is_dir :: "path \<Rightarrow> exn + bool"
  is_file :: "path \<Rightarrow> exn + bool"
  stat :: "path \<Rightarrow> exn + 'f stat_result"
  glob :: "path \<Rightarrow> string \<Rightarrow> path gen"
  fromtimestamp_isoformat :: "'f \<Rightarrow> exn + string"
  environ :: "string \<rightharpoonup> string"
  getcwd :: "exn + string"
  datetime_now :: string
  sys_version :: string
  platform_platform :: string

text \<open>
  The components of a POSIX path as \<^verbatim>\<open>pathlib\<close> keeps them: the text is cut at every
  \<^verbatim>\<open>/\<close>, and empty components and \<^verbatim>\<open>.\<close> are dropped (\<^verbatim>\<open>..\<close> is kept). \<open>cur\<close> is the
  component read so far.
\<close>

fun parts_from :: "string \<Rightarrow> string \<Rightarrow> string list" where
  "parts_from cur [] = (if cur = [] \<or> cur = ''.'' then [] else [cur])"
| "parts_from cur (c # cs) =
     (if c = CHR ''/'' then
        (if cur = [] \<or> cur = ''.'' then parts_from [] cs else cur # parts_from [] cs)
      else parts_from (cur @ [c]) cs)"

definition path_parts :: "path \<Rightarrow> string list" where
  "path_parts p = parts_from [] p"

text \<open>
  \<^verbatim>\<open>Path.name\<close>: the last component, and the empty string when there is none, as for
  \<^verbatim>\<open>Path(".")\<close> and \<^verbatim>\<open>Path("/")\<close>.
\<close>

definition path_name :: "path \<Rightarrow> string" where
  "path_name p = (case rev (path_parts p) of [] \<Rightarrow> [] | n # ns \<Rightarrow> n)"


section \<open>The file lister\<close>

record FileListRequest =
  directory :: string
  pattern :: string

definition file_entry :: "path \<Rightarrow> 'f stat_result \<Rightarrow> string \<Rightarrow> 'f dict" where
  "file_entry file_path st modified =
     [(''name'', JStr (path_name file_path)),
      (''path'', JStr file_path),
      (''size'', JInt (st_size st)),
      (''modified'', JStr modified),
      (''is_file'', JBool True)]"

definition dir_entry :: "path \<Rightarrow> 'f dict" where
  "dir_entry file_path =
     [(''name'', JStr (path_name file_path)),
      (''path'', JStr file_path),
      (''is_file'', JBool False)]"

text \<open>The \<^verbatim>\<open>for\<close> loop of lines 108 to 123, with \<open>files\<close> the list built so far.\<close>

fun list_loop :: "'f world \<Rightarrow> path gen \<Rightarrow> 'f dict list \<Rightarrow> exn + 'f dict list" where
  "list_loop w Stop files = Inr files"
| "list_loop w (Raised e) files = Inl e"
| "list_loop w (Yield file_path rest) files =
     (case is_file w file_path of
        Inl e \<Rightarrow> Inl e
      | Inr True \<Rightarrow>
          (case stat w file_path of
             Inl e \<Rightarrow> Inl e
           | Inr st \<Rightarrow>
               (case fromtimestamp_isoformat w (st_mtime st) of
                  Inl e \<Rightarrow> Inl e
                | Inr modified \<Rightarrow>
                    list_loop w rest (files @ [file_entry file_path st modified])))
      | Inr False \<Rightarrow>
          (case is_dir w file_path of
             Inl e \<Rightarrow> Inl e
           | Inr True \<Rightarrow> list_loop w rest (files @ [dir_entry file_path])
           | Inr False \<Rightarrow> list_loop w rest files))"

text \<open>The body of the \<^verbatim>\<open>try\<close> block of \<^verbatim>\<open>list_files\<close> (lines 92 to 130).\<close>

definition list_files_try :: "'f world \<Rightarrow> FileListRequest \<Rightarrow> exn + 'f dict" where
  "list_files_try w request =
     (case exists w (directory request) of
        Inl e \<Rightarrow> Inl e
      | Inr False \<Rightarrow>
          Inr [(''error'', JStr (''Directory does not exist: '' @ directory request)),
               (''directory'', JStr (directory request))]
      | Inr True \<Rightarrow>
          (case is_dir w (directory request) of
             Inl e \<Rightarrow> Inl e
           | Inr False \<Rightarrow>
               Inr [(''error'', JStr (''Path is not a directory: '' @ directory request)),
                    (''directory'', JStr (directory request))]
           | Inr True \<Rightarrow>
               (case list_loop w (glob w (directory request) (pattern request)) [] of
                  Inl e \<Rightarrow> Inl e
                | Inr files \<Rightarrow>
                    Inr [(''directory'', JStr (directory request)),
                         (''pattern'', JStr (pattern request)),
                         (''files'', JList (map JDict files)),
                         (''count'', JInt (int (length files)))])))"

text \<open>The whole tool: the \<^verbatim>\<open>except Exception\<close> handler of lines 131 to 136 around the body.\<close>

definition list_files :: "'f world \<Rightarrow> FileListRequest \<Rightarrow> exn + 'f dict" where
  "list_files w request =
     (case list_files_try w request of
        Inr d \<Rightarrow> Inr d
      | Inl e \<Rightarrow>
          Inr [(''error'', JStr (''File listing error: '' @ str_of e)),
               (''directory'', JStr (directory request)),
               (''pattern'', JStr (pattern request))])"


section \<open>The system-info reporter and echo\<close>

record SystemInfoResponse =
  timestamp :: string
  python_version :: string
  platform :: string
  working_directory :: string
  environment_variables :: "(string \<times> string) list"

definition safe_vars :: "string list" where
  "safe_vars = [''PATH'', ''HOME'', ''USER'', ''SHELL'', ''LANG'', ''PWD'']"

text \<open>One round of the loop of lines 151 to 153; \<^verbatim>\<open>env_vars[var] = ...\<close> is \<^const>\<open>AList.update\<close>.\<close>

definition env_step :: "(string \<rightharpoonup> string) \<Rightarrow> string \<Rightarrow> (string \<times> string) list \<Rightarrow> (string \<times> string) list" where
  "env_step env var env_vars =
     (case env var of None \<Rightarrow> env_vars | Some v \<Rightarrow> AList.update var v env_vars)"

text \<open>
  \<^verbatim>\<open>system_info\<close> has no \<^verbatim>\<open>try\<close>: an exception of \<^verbatim>\<open>os.getcwd()\<close> (the working directory
  has been removed) leaves the function.
\<close>

definition system_info :: "'f world \<Rightarrow> exn + SystemInfoResponse" where
  "system_info w =
     (let env_vars = fold (env_step (environ w)) safe_vars []
      in case getcwd w of
           Inl e \<Rightarrow> Inl e
         | Inr cwd \<Rightarrow>
             Inr \<lparr>timestamp = datetime_now w,
                  python_version = sys_version w,
                  platform = platform_platform w,
                  working_directory = cwd,
                  environment_variables = env_vars\<rparr>)"

definition echo :: "'f world \<Rightarrow> string \<Rightarrow> exn + 'f dict" where
  "echo w message =
     Inr [(''message'', JStr message),
          (''timestamp'', JStr (datetime_now w)),
          (''length'', JInt (int (length message)))]"

text \<open>The fields of a \<^verbatim>\<open>SystemInfoResponse\<close> (lines 28 to 34) as a dictionary.\<close>

definition model_dump :: "SystemInfoResponse \<Rightarrow> 'f dict" where
  "model_dump r =
     [(''timestamp'', JStr (timestamp r)),
      (''python_version'', JStr (python_version r)),
      (''platform'', JStr (platform r)),
      (''working_directory'', JStr (working_directory r)),
      (''environment_variables'', JDict (map (\<lambda>(k, v). (k, JStr v)) (environment_variables r)))]"


section \<open>Notions used to state the properties\<close>

definition supported :: "string list" where
  "supported = [''add'', ''subtract'', ''multiply'', ''divide'']"

text \<open>The arithmetic result the contract of \<^verbatim>\<open>calculate\<close> names for a supported operation.\<close>

definition arith :: "'f float_ops \<Rightarrow> string \<Rightarrow> 'f \<Rightarrow> 'f \<Rightarrow> 'f" where
  "arith ops op x y =
     (if op = ''add'' then fadd ops x y
      else if op = ''subtract'' then fsub ops x y
      else if op = ''multiply'' then fmul ops x y
      else fdiv ops x y)"

text \<open>What a tool handed back, when it returned.\<close>

definition returned :: "exn + 'f dict \<Rightarrow> 'f dict" where
  "returned r = (case r of Inr d \<Rightarrow> d | Inl e \<Rightarrow> [])"

text \<open>
  The two variants of an envelope. The Error variant is populated when the dictionary has
  the key \<^verbatim>\<open>error\<close>; the Success variant of a tool is populated when the dictionary has
  every field of that tool's success payload.
\<close>

datatype tool = Calculator | ListFiles | SystemInfo | Echo

fun success_keys :: "tool \<Rightarrow> string list" where
  "success_keys Calculator = [''result'', ''operation'', ''inputs'']"
| "success_keys ListFiles = [''directory'', ''pattern'', ''files'', ''count'']"
| "success_keys SystemInfo =
     [''timestamp'', ''python_version'', ''platform'', ''working_directory'',
      ''environment_variables'']"
| "success_keys Echo = [''message'', ''timestamp'', ''length'']"

definition is_error :: "'f dict \<Rightarrow> bool" where
  "is_error d = has_key d ''error''"

definition is_success :: "tool \<Rightarrow> 'f dict \<Rightarrow> bool" where
  "is_success t d = list_all (has_key d) (success_keys t)"

text \<open>The paths a generator yields before it ends, and whether it ends without raising.\<close>

fun gen_items :: "'a gen \<Rightarrow> 'a list" where
  "gen_items Stop = []"
| "gen_items (Raised e) = []"
| "gen_items (Yield x rest) = x # gen_items rest"

fun gen_ok :: "'a gen \<Rightarrow> bool" where
  "gen_ok Stop = True"
| "gen_ok (Raised e) = False"
| "gen_ok (Yield x rest) = gen_ok rest"

text \<open>
  The record \<^verbatim>\<open>list_files\<close> gives a glob match: the five fields of a regular file, the
  three fields of a directory, nothing for a match that is neither.
\<close>

definition entry :: "'f world \<Rightarrow> path \<Rightarrow> 'f dict option" where
  "entry w p =
     (case is_file w p of
        Inr True \<Rightarrow>
          (case stat w p of
             Inr st \<Rightarrow>
               (case fromtimestamp_isoformat w (st_mtime st) of
                  Inr modified \<Rightarrow> Some (file_entry p st modified)
                | Inl e \<Rightarrow> None)
           | Inl e \<Rightarrow> None)
      | Inr False \<Rightarrow>
          (case is_dir w p of Inr True \<Rightarrow> Some (dir_entry p) | Inr False \<Rightarrow> None | Inl e \<Rightarrow> None)
      | Inl e \<Rightarrow> None)"

text \<open>
  An example state: the directory \<^verbatim>\<open>/srv\<close> holds the regular file \<^verbatim>\<open>a.txt\<close>, the
  subdirectory \<^verbatim>\<open>sub\<close> and the symbolic link \<^verbatim>\<open>dangling\<close> whose target is missing, so
  that \<^verbatim>\<open>exists\<close>, \<^verbatim>\<open>is_file\<close> and \<^verbatim>\<open>is_dir\<close> are all false for it although \<^verbatim>\<open>glob\<close>
  yields it. The environment holds a variable outside the allow-list.
\<close>

definition example_world :: "real world" where
  "example_world =
     \<lparr>exists = (\<lambda>p. Inr (p \<in> set [''/srv'', ''/srv/a.txt'', ''/srv/sub'', ''/etc/hosts''])),
      is_dir = (\<lambda>p. Inr (p \<in> set [''/srv'', ''/srv/sub''])),
      is_file = (\<lambda>p. Inr (p \<in> set [''/srv/a.txt'', ''/etc/hosts''])),
      stat = (\<lambda>p. if p = ''/srv/a.txt'' then Inr \<lparr>st_size = 12, st_mtime = 86400\<rparr>
                   else if p = ''/etc/hosts'' then Inr \<lparr>st_size = 220, st_mtime = 0\<rparr>
                   else if p \<in> set [''/srv'', ''/srv/sub''] then Inr \<lparr>st_size = 4096, st_mtime = 0\<rparr>
                   else Inl (Exception ''[Errno 2] No such file or directory'')),
      glob = (\<lambda>d pat.
                if pat = [] then Raised (Exception ''Unacceptable pattern'')
                else if d = ''/srv'' \<and> pat = ''*'' then
                  Yield ''/srv/a.txt'' (Yield ''/srv/dangling'' (Yield ''/srv/sub'' Stop))
                else Stop),
      fromtimestamp_isoformat =
        (\<lambda>t. if t = 0 then Inr ''1970-01-01T00:00:00''
              else if t = 86400 then Inr ''1970-01-02T00:00:00''
              else Inl (Exception ''timestamp out of range for platform time_t'')),
      environ = map_of [(''PATH'', ''/usr/bin''), (''HOME'', ''/root''), (''API_KEY'', ''s3cret'')],
      getcwd = Inr ''/srv'',
      datetime_now = ''2024-01-01T00:00:00'',
      sys_version = ''3.11.4'',
      platform_platform = ''Linux''\<rparr>"

text \<open>The same state after the working directory of the process has been removed.\<close>

definition cwd_removed_world :: "real world" where
  "cwd_removed_world =
     example_world\<lparr>getcwd := Inl (Exception ''[Errno 2] No such file or directory'')\<rparr>"

text \<open>The same state one second later: only the clock differs.\<close>

definition later_world :: "real world" where
  "later_world = example_world\<lparr>datetime_now := ''2024-01-01T00:00:01''\<rparr>"

text \<open>
  The outcome of an invocation populates a variant only when the tool returns: an exception
  that leaves the tool populates neither. The outcome of \<^verbatim>\<open>system_info\<close> is read through
  the fields of its response.
\<close>

definition error_variant :: "exn + 'f dict \<Rightarrow> bool" where
  "error_variant out = (case out of Inr d \<Rightarrow> is_error d | Inl e \<Rightarrow> False)"

definition success_variant :: "tool \<Rightarrow> exn + 'f dict \<Rightarrow> bool" where
  "success_variant t out = (case out of Inr d \<Rightarrow> is_success t d | Inl e \<Rightarrow> False)"

definition system_info_envelope :: "'f world \<Rightarrow> exn + 'f dict" where
  "system_info_envelope w = map_sum id model_dump (system_info w)"

text \<open>
  A direct entry of a directory: its components are those of the directory followed by one
  more.
\<close>

definition direct_entry :: "path \<Rightarrow> path \<Rightarrow> bool" where
  "direct_entry d p = (path_parts p \<noteq> [] \<and> butlast (path_parts p) = path_parts d)"

text \<open>
  The example state on a filesystem whose names are at most 255 characters long: for a longer
  name, which no file can have, \<^verbatim>\<open>Path.exists()\<close> raises OSError (ENAMETOOLONG) instead of
  returning False.
\<close>

definition long_name_world :: "real world" where
  "long_name_world =
     example_world
       \<lparr>exists := (\<lambda>p. if 255 < length p then Inl (Exception ''[Errno 36] File name too long'')
                       else exists example_world p)\<rparr>"

text \<open>
  The example state with a regular file \<^verbatim>\<open>b.txt\<close> in the subdirectory \<^verbatim>\<open>/srv/sub\<close>; the
  pattern \<^verbatim>\<open>*/*\<close> matches it from \<^verbatim>\<open>/srv\<close>.
\<close>

definition nested_world :: "real world" where
  "nested_world =
     example_world
       \<lparr>exists := (\<lambda>p. if p = ''/srv/sub/b.txt'' then Inr True else exists example_world p),
        is_file := (\<lambda>p. if p = ''/srv/sub/b.txt'' then Inr True else is_file example_world p),
        stat := (\<lambda>p. if p = ''/srv/sub/b.txt'' then Inr \<lparr>st_size = 3, st_mtime = 0\<rparr>
                     else stat example_world p),
        glob := (\<lambda>d pat. if d = ''/srv'' \<and> pat = ''*/*'' then Yield ''/srv/sub/b.txt'' Stop
                         else glob example_world d pat)\<rparr>"


section \<open>Properties of the calculator\<close>

text \<open>
  Claim C2. For all operands \<open>x\<close>, \<open>y\<close>: \<^verbatim>\<open>divide\<close> with \<open>y == 0\<close> returns the error
  "Division by zero is not allowed" with the operation and both operands echoed; an
  operation outside add, subtract, multiply, divide returns the error
  "Unknown operation: <op>" with the list of supported operations; every other call returns
  the success payload with the arithmetic result, the operation and the operands. In
  particular \<^verbatim>\<open>calculate("add", 2, 3)\<close> has result 5.
\<close>

theorem calculator_contract:
  "(eq_zero ops y \<longrightarrow>
      calculator ops \<lparr>operation = ''divide'', a = x, b = y\<rparr> =
        Inr [(''error'', JStr ''Division by zero is not allowed''),
             (''operation'', JStr ''divide''),
             (''inputs'', JDict [(''a'', JFloat x), (''b'', JFloat y)])])
   \<and> (op \<notin> set supported \<longrightarrow>
      calculator ops \<lparr>operation = op, a = x, b = y\<rparr> =
        Inr [(''error'', JStr (''Unknown operation: '' @ op)),
             (''supported_operations'', JList (map JStr supported))])
   \<and> (op \<in> set supported \<and> \<not> (op = ''divide'' \<and> eq_zero ops y) \<longrightarrow>
      calculator ops \<lparr>operation = op, a = x, b = y\<rparr> =
        Inr [(''result'', JFloat (arith ops op x y)),
             (''operation'', JStr op),
             (''inputs'', JDict [(''a'', JFloat x), (''b'', JFloat y)])])
   \<and> calculator exact_ops \<lparr>operation = ''add'', a = 2, b = 3\<rparr> =
        Inr [(''result'', JFloat 5),
             (''operation'', JStr ''add''),
             (''inputs'', JDict [(''a'', JFloat 2), (''b'', JFloat 3)])]"
  by (auto simp add: calculator_def calculator_try_def calc_success_def calc_inputs_def
        truediv_def supported_def arith_def exact_ops_def)

theorem calculator_contract_witness:
  "calculator exact_ops \<lparr>operation = ''divide'', a = 1, b = 0\<rparr> =
      Inr [(''error'', JStr ''Division by zero is not allowed''),
           (''operation'', JStr ''divide''),
           (''inputs'', JDict [(''a'', JFloat 1), (''b'', JFloat 0)])]
   \<and> calculator exact_ops \<lparr>operation = ''mod'', a = 1, b = 0\<rparr> =
      Inr [(''error'', JStr ''Unknown operation: mod''),
           (''supported_operations'',
              JList [JStr ''add'', JStr ''subtract'', JStr ''multiply'', JStr ''divide''])]
   \<and> calculator exact_ops \<lparr>operation = ''multiply'', a = 1, b = 0\<rparr> =
      Inr [(''result'', JFloat 0),
           (''operation'', JStr ''multiply''),
           (''inputs'', JDict [(''a'', JFloat 1), (''b'', JFloat 0)])]"
  using calculator_contract [where ops = exact_ops and x = 1 and y = 0 and op = "''mod''"]
    calculator_contract [where ops = exact_ops and x = 1 and y = 0 and op = "''multiply''"]
  by (simp add: supported_def arith_def exact_ops_def)


section \<open>Properties of echo\<close>

text \<open>
  Claim C8. \<^verbatim>\<open>echo\<close> returns on every message, and its payload holds the message
  unchanged, a timestamp and the number of characters of the message; \<^verbatim>\<open>echo("hi")\<close> has
  message "hi" and length 2.
\<close>

theorem echo_contract:
  "echo w message =
     Inr [(''message'', JStr message),
          (''timestamp'', JStr (datetime_now w)),
          (''length'', JInt (int (length message)))]
   \<and> (\<exists>ts. echo w ''hi'' =
         Inr [(''message'', JStr ''hi''), (''timestamp'', JStr ts), (''length'', JInt 2)])"
  by (simp add: echo_def)


section \<open>Properties of the system-info reporter\<close>

lemma map_of_env_fold:
  "map_of (fold (env_step env) vs acc) k =
     (if k \<in> set vs then (case env k of None \<Rightarrow> map_of acc k | Some v \<Rightarrow> Some v)
      else map_of acc k)"
  by (induction vs arbitrary: acc) (auto simp add: env_step_def update_conv' split: option.splits)

lemma keys_env_fold:
  "fst ` set (fold (env_step env) vs acc) \<subseteq> set vs \<union> fst ` set acc"
proof (induction vs arbitrary: acc)
  case Nil
  show ?case by simp
next
  case (Cons x xs)
  have "fst ` set (env_step env x acc) \<subseteq> insert x (fst ` set acc)"
    by (simp add: env_step_def dom_update split: option.splits) blast
  with Cons [of "env_step env x acc"] show ?case by auto
qed

lemma system_info_env:
  "system_info w = Inr r \<Longrightarrow> environment_variables r = fold (env_step (environ w)) safe_vars []"
  by (cases "getcwd w") (auto simp add: system_info_def)

lemma set_safe_vars:
  "set safe_vars = {''PATH'', ''HOME'', ''USER'', ''SHELL'', ''LANG'', ''PWD''}"
  by (simp add: safe_vars_def)

text \<open>
  Claim C7. Whatever the environment of the process holds, every key of
  \<^verbatim>\<open>environment_variables\<close> in the result of \<^verbatim>\<open>system_info\<close> is one of PATH, HOME,
  USER, SHELL, LANG, PWD; the field maps each of these to its value in the environment when
  it is set there, and holds nothing else.
\<close>

theorem system_info_allow_list:
  assumes "system_info w = Inr r"
  shows "fst ` set (environment_variables r) \<subseteq> {''PATH'', ''HOME'', ''USER'', ''SHELL'', ''LANG'', ''PWD''}
       \<and> (\<forall>k. map_of (environment_variables r) k =
              (if k \<in> {''PATH'', ''HOME'', ''USER'', ''SHELL'', ''LANG'', ''PWD''} then environ w k else None))"
proof -
  note ev = system_info_env [OF assms]
  have keys: "fst ` set (environment_variables r) \<subseteq> set safe_vars"
    using keys_env_fold [of "environ w" safe_vars "[]"] unfolding ev by simp
  have vals: "map_of (environment_variables r) k = (if k \<in> set safe_vars then environ w k else None)" for k
    unfolding ev map_of_env_fold by (cases "environ w k") simp_all
  from keys vals show ?thesis unfolding set_safe_vars by blast
qed

theorem system_info_allow_list_witness:
  "environ example_world ''API_KEY'' = Some ''s3cret''
   \<and> system_info example_world =
       Inr \<lparr>timestamp = ''2024-01-01T00:00:00'', python_version = ''3.11.4'',
            platform = ''Linux'', working_directory = ''/srv'',
            environment_variables = [(''PATH'', ''/usr/bin''), (''HOME'', ''/root'')]\<rparr>
   \<and> fst ` set [(''PATH'', ''/usr/bin''), (''HOME'', ''/root'')]
       \<subseteq> {''PATH'', ''HOME'', ''USER'', ''SHELL'', ''LANG'', ''PWD''}
   \<and> map_of [(''PATH'', ''/usr/bin''), (''HOME'', ''/root'')] ''API_KEY'' = None"
proof -
  have run: "system_info example_world =
       Inr \<lparr>timestamp = ''2024-01-01T00:00:00'', python_version = ''3.11.4'',
            platform = ''Linux'', working_directory = ''/srv'',
            environment_variables = [(''PATH'', ''/usr/bin''), (''HOME'', ''/root'')]\<rparr>"
    by (simp add: system_info_def example_world_def safe_vars_def env_step_def)
  have env: "environ example_world ''API_KEY'' = Some ''s3cret''"
    by (simp add: example_world_def)
  from system_info_allow_list [OF run] run env show ?thesis by simp
qed


section \<open>Properties of the file lister\<close>

lemma entry_path: "entry w p = Some e \<Longrightarrow> map_of e ''path'' = Some (JStr p)"
  by (auto simp add: entry_def file_entry_def dir_entry_def split: sum.splits bool.splits)

lemma list_loop_Inr:
  "list_loop w g acc = Inr files \<Longrightarrow>
     gen_ok g \<and> files = acc @ List.map_filter (entry w) (gen_items g)"
proof (induction g arbitrary: acc)
  case Stop
  then show ?case by (simp add: List.map_filter_simps)
next
  case (Raised e)
  then show ?case by simp
next
  case (Yield p rest)
  show ?case
  proof (cases "entry w p")
    case None
    with Yield.prems have "list_loop w rest acc = Inr files"
      by (auto simp add: entry_def split: sum.splits bool.splits)
    from Yield.IH [OF this] None show ?thesis by (simp add: List.map_filter_simps)
  next
    case (Some e)
    with Yield.prems have "list_loop w rest (acc @ [e]) = Inr files"
      by (auto simp add: entry_def split: sum.splits bool.splits)
    from Yield.IH [OF this] Some show ?thesis by (simp add: List.map_filter_simps)
  qed
qed

lemma list_files_success:
  assumes "list_files w request = Inr d" and "has_key d ''files''"
  shows "exists w (directory request) = Inr True \<and> is_dir w (directory request) = Inr True \<and>
         (\<exists>files. list_loop w (glob w (directory request) (pattern request)) [] = Inr files \<and>
            d = [(''directory'', JStr (directory request)),
                 (''pattern'', JStr (pattern request)),
                 (''files'', JList (map JDict files)),
                 (''count'', JInt (int (length files)))])"
  using assms
  by (auto simp add: list_files_def list_files_try_def has_key_def split: sum.splits bool.splits)
lemma example_listing:
  "list_files example_world \<lparr>directory = ''/srv'', pattern = ''*''\<rparr> =
     Inr [(''directory'', JStr ''/srv''),
          (''pattern'', JStr ''*''),
          (''files'',
             JList [JDict [(''name'', JStr ''a.txt''), (''path'', JStr ''/srv/a.txt''),
                           (''size'', JInt 12), (''modified'', JStr ''1970-01-02T00:00:00''),
                           (''is_file'', JBool True)],
                    JDict [(''name'', JStr ''sub''), (''path'', JStr ''/srv/sub''),
                           (''is_file'', JBool False)]]),
          (''count'', JInt 2)]"
  by (simp add: list_files_def list_files_try_def example_world_def file_entry_def dir_entry_def
        path_name_def path_parts_def)

lemma example_matches:
  "gen_items (glob example_world ''/srv'' ''*'') = [''/srv/a.txt'', ''/srv/dangling'', ''/srv/sub'']"
  by (simp add: example_world_def)

lemma list_loop_calls:
  "list_loop w g acc = Inr files \<Longrightarrow> p \<in> set (gen_items g) \<Longrightarrow>
     (is_file w p = Inr True
        \<and> (\<exists>st m. stat w p = Inr st \<and> fromtimestamp_isoformat w (st_mtime st) = Inr m
              \<and> entry w p =
                  Some [(''name'', JStr (path_name p)), (''path'', JStr p),
                        (''size'', JInt (st_size st)), (''modified'', JStr m),
                        (''is_file'', JBool True)]))
     \<or> (is_file w p = Inr False \<and> is_dir w p = Inr True
        \<and> entry w p =
            Some [(''name'', JStr (path_name p)), (''path'', JStr p), (''is_file'', JBool False)])
     \<or> (is_file w p = Inr False \<and> is_dir w p = Inr False \<and> entry w p = None)"
proof (induction g arbitrary: acc)
  case (Yield q rest)
  show ?case
  proof (cases "p = q")
    case True
    with Yield.prems(1) show ?thesis
      by (auto simp add: entry_def file_entry_def dir_entry_def split: sum.splits bool.splits)
  next
    case False
    with Yield.prems(2) have mem: "p \<in> set (gen_items rest)" by simp
    from Yield.prems(1) obtain acc' where "list_loop w rest acc' = Inr files"
      by (auto split: sum.splits bool.splits)
    from Yield.IH [OF this mem] show ?thesis .
  qed
qed simp_all

lemma nested_listing:
  "list_files nested_world \<lparr>directory = ''/srv'', pattern = ''*/*''\<rparr> =
     Inr [(''directory'', JStr ''/srv''),
          (''pattern'', JStr ''*/*''),
          (''files'',
             JList [JDict [(''name'', JStr ''b.txt''), (''path'', JStr ''/srv/sub/b.txt''),
                           (''size'', JInt 3), (''modified'', JStr ''1970-01-01T00:00:00''),
                           (''is_file'', JBool True)]]),
          (''count'', JInt 1)]"
  by (simp add: list_files_def list_files_try_def nested_world_def example_world_def
        file_entry_def path_name_def path_parts_def)

text \<open>
  Claim C5, as stated, fails: a name of 256 characters is the name of no file, yet for it
  \<^verbatim>\<open>Path.exists()\<close> raises instead of returning False, and \<^verbatim>\<open>list_files\<close> returns the error
  of its exception handler, "File listing error: <detail>", not "Directory does not exist".
\<close>

theorem exists_raises_counterexample:
  "exists long_name_world (replicate 256 (CHR ''a'')) =
     Inl (Exception ''[Errno 36] File name too long'')
   \<and> list_files long_name_world \<lparr>directory = replicate 256 (CHR ''a''), pattern = ''*''\<rparr> =
     Inr [(''error'', JStr ''File listing error: [Errno 36] File name too long''),
          (''directory'', JStr (replicate 256 (CHR ''a''))),
          (''pattern'', JStr ''*'')]"
  by (simp add: long_name_world_def list_files_def list_files_try_def)

text \<open>
  Claim C5, amended. When \<^verbatim>\<open>Path.exists()\<close> returns False, \<^verbatim>\<open>list_files\<close> returns the error
  "Directory does not exist: <directory>"; when it returns True and \<^verbatim>\<open>is_dir()\<close> returns
  False, the error "Path is not a directory: <directory>"; when \<^verbatim>\<open>Path.exists()\<close> raises, the
  error "File listing error: <detail>" with directory and pattern. None of the three cases
  enumerates: the result is the same whatever \<^verbatim>\<open>glob\<close> would do, also a \<^verbatim>\<open>glob\<close> that raises.
\<close>

theorem list_files_missing_or_not_directory:
  "(exists w (directory request) = Inr False \<longrightarrow>
      list_files (w\<lparr>glob := g\<rparr>) request =
        Inr [(''error'', JStr (''Directory does not exist: '' @ directory request)),
             (''directory'', JStr (directory request))])
   \<and> (exists w (directory request) = Inr True \<and> is_dir w (directory request) = Inr False \<longrightarrow>
      list_files (w\<lparr>glob := g\<rparr>) request =
        Inr [(''error'', JStr (''Path is not a directory: '' @ directory request)),
             (''directory'', JStr (directory request))])
   \<and> (\<forall>e. exists w (directory request) = Inl e \<longrightarrow>
      list_files (w\<lparr>glob := g\<rparr>) request =
        Inr [(''error'', JStr (''File listing error: '' @ str_of e)),
             (''directory'', JStr (directory request)),
             (''pattern'', JStr (pattern request))])"
  by (simp add: list_files_def list_files_try_def)

theorem list_files_missing_or_not_directory_witness:
  "exists example_world ''/nonexistent'' = Inr False
   \<and> list_files (example_world\<lparr>glob := \<lambda>d pat. Raised (Exception ''enumerated'')\<rparr>)
        \<lparr>directory = ''/nonexistent'', pattern = ''*''\<rparr> =
        Inr [(''error'', JStr ''Directory does not exist: /nonexistent''),
             (''directory'', JStr ''/nonexistent'')]
   \<and> exists example_world ''/etc/hosts'' = Inr True
   \<and> is_dir example_world ''/etc/hosts'' = Inr False
   \<and> list_files (example_world\<lparr>glob := \<lambda>d pat. Raised (Exception ''enumerated'')\<rparr>)
        \<lparr>directory = ''/etc/hosts'', pattern = ''*''\<rparr> =
        Inr [(''error'', JStr ''Path is not a directory: /etc/hosts''),
             (''directory'', JStr ''/etc/hosts'')]
   \<and> exists long_name_world (replicate 256 (CHR ''a'')) =
        Inl (Exception ''[Errno 36] File name too long'')
   \<and> list_files (long_name_world\<lparr>glob := \<lambda>d pat. Raised (Exception ''enumerated'')\<rparr>)
        \<lparr>directory = replicate 256 (CHR ''a''), pattern = ''*''\<rparr> =
        Inr [(''error'', JStr ''File listing error: [Errno 36] File name too long''),
             (''directory'', JStr (replicate 256 (CHR ''a''))),
             (''pattern'', JStr ''*'')]"
proof -
  have e1: "exists example_world ''/nonexistent'' = Inr False"
    and e2: "exists example_world ''/etc/hosts'' = Inr True"
    and e3: "is_dir example_world ''/etc/hosts'' = Inr False"
    by (simp_all add: example_world_def)
  have e4: "exists long_name_world (replicate 256 (CHR ''a'')) =
        Inl (Exception ''[Errno 36] File name too long'')"
    by (simp add: long_name_world_def)
  from list_files_missing_or_not_directory
          [of example_world "\<lparr>directory = ''/nonexistent'', pattern = ''*''\<rparr>"
              "\<lambda>d pat. Raised (Exception ''enumerated'')"]
        list_files_missing_or_not_directory
          [of example_world "\<lparr>directory = ''/etc/hosts'', pattern = ''*''\<rparr>"
              "\<lambda>d pat. Raised (Exception ''enumerated'')"]
        list_files_missing_or_not_directory
          [of long_name_world "\<lparr>directory = replicate 256 (CHR ''a''), pattern = ''*''\<rparr>"
              "\<lambda>d pat. Raised (Exception ''enumerated'')"]
        e1 e2 e3 e4
  show ?thesis by simp
qed

text \<open>
  Claim C6, as stated, fails. In the example state \<^verbatim>\<open>glob\<close> yields three entries of
  \<^verbatim>\<open>/srv\<close>, the listing holds two of them, and the record of the subdirectory has neither
  a size nor a modification time. With the pattern \<^verbatim>\<open>*/*\<close> the listing of \<^verbatim>\<open>/srv\<close> holds
  \<^verbatim>\<open>/srv/sub/b.txt\<close>, which is not a direct entry of \<^verbatim>\<open>/srv\<close>.
\<close>

theorem list_files_enumeration_counterexample:
  "gen_items (glob example_world ''/srv'' ''*'') = [''/srv/a.txt'', ''/srv/dangling'', ''/srv/sub'']
   \<and> list_files example_world \<lparr>directory = ''/srv'', pattern = ''*''\<rparr> =
     Inr [(''directory'', JStr ''/srv''),
          (''pattern'', JStr ''*''),
          (''files'',
             JList [JDict [(''name'', JStr ''a.txt''), (''path'', JStr ''/srv/a.txt''),
                           (''size'', JInt 12), (''modified'', JStr ''1970-01-02T00:00:00''),
                           (''is_file'', JBool True)],
                    JDict [(''name'', JStr ''sub''), (''path'', JStr ''/srv/sub''),
                           (''is_file'', JBool False)]]),
          (''count'', JInt 2)]
   \<and> list_files nested_world \<lparr>directory = ''/srv'', pattern = ''*/*''\<rparr> =
     Inr [(''directory'', JStr ''/srv''),
          (''pattern'', JStr ''*/*''),
          (''files'',
             JList [JDict [(''name'', JStr ''b.txt''), (''path'', JStr ''/srv/sub/b.txt''),
                           (''size'', JInt 3), (''modified'', JStr ''1970-01-01T00:00:00''),
                           (''is_file'', JBool True)]]),
          (''count'', JInt 1)]
   \<and> \<not> direct_entry ''/srv'' ''/srv/sub/b.txt''"
  using example_matches example_listing nested_listing
  by (simp add: direct_entry_def path_parts_def)

text \<open>
  Claim C6, amended. When \<^verbatim>\<open>list_files\<close> succeeds, \<^verbatim>\<open>glob\<close> has ended without raising and
  no call on a match has raised. The result is \<^verbatim>\<open>{directory, pattern, files, count}\<close>, where
  \<^verbatim>\<open>files\<close> holds, in the order of \<^verbatim>\<open>glob\<close>, for each match that is a regular file the record
  of its name, path, size, modification time (as converted by
  \<^verbatim>\<open>datetime.fromtimestamp(...).isoformat()\<close>) and \<^verbatim>\<open>is_file\<close> true, for each match that is a
  directory the record of its name, path and \<^verbatim>\<open>is_file\<close> false, and nothing for a match that
  is neither; \<^verbatim>\<open>count\<close> is the length of \<^verbatim>\<open>files\<close>. The matches are those of \<^verbatim>\<open>Path.glob\<close>,
  direct entries or not.
\<close>

theorem list_files_enumeration:
  assumes "list_files w request = Inr d" and "has_key d ''files''"
  shows "gen_ok (glob w (directory request) (pattern request))
       \<and> d = [(''directory'', JStr (directory request)),
              (''pattern'', JStr (pattern request)),
              (''files'', JList (map JDict
                 (List.map_filter (entry w) (gen_items (glob w (directory request) (pattern request)))))),
              (''count'', JInt (int (length
                 (List.map_filter (entry w) (gen_items (glob w (directory request) (pattern request)))))))]
       \<and> (\<forall>p \<in> set (gen_items (glob w (directory request) (pattern request))).
            (is_file w p = Inr True
               \<and> (\<exists>st m. stat w p = Inr st \<and> fromtimestamp_isoformat w (st_mtime st) = Inr m
                     \<and> entry w p =
                         Some [(''name'', JStr (path_name p)), (''path'', JStr p),
                               (''size'', JInt (st_size st)), (''modified'', JStr m),
                               (''is_file'', JBool True)]))
            \<or> (is_file w p = Inr False \<and> is_dir w p = Inr True
               \<and> entry w p =
                   Some [(''name'', JStr (path_name p)), (''path'', JStr p),
                         (''is_file'', JBool False)])
            \<or> (is_file w p = Inr False \<and> is_dir w p = Inr False \<and> entry w p = None))"
proof -
  from list_files_success [OF assms] obtain files where
    loop: "list_loop w (glob w (directory request) (pattern request)) [] = Inr files" and
    d: "d = [(''directory'', JStr (directory request)), (''pattern'', JStr (pattern request)),
             (''files'', JList (map JDict files)), (''count'', JInt (int (length files)))]"
    by blast
  from list_loop_Inr [OF loop] d
  have "gen_ok (glob w (directory request) (pattern request))"
    and "d = [(''directory'', JStr (directory request)),
              (''pattern'', JStr (pattern request)),
              (''files'', JList (map JDict
                 (List.map_filter (entry w) (gen_items (glob w (directory request) (pattern request)))))),
              (''count'', JInt (int (length
                 (List.map_filter (entry w) (gen_items (glob w (directory request) (pattern request)))))))]"
    by simp_all
  moreover note list_loop_calls [OF loop]
  ultimately show ?thesis by blast
qed

theorem list_files_enumeration_witness:
  "has_key (returned (list_files example_world \<lparr>directory = ''/srv'', pattern = ''*''\<rparr>)) ''files''
   \<and> gen_items (glob example_world ''/srv'' ''*'') = [''/srv/a.txt'', ''/srv/dangling'', ''/srv/sub'']
   \<and> entry example_world ''/srv/a.txt'' =
       Some [(''name'', JStr ''a.txt''), (''path'', JStr ''/srv/a.txt''), (''size'', JInt 12),
             (''modified'', JStr ''1970-01-02T00:00:00''), (''is_file'', JBool True)]
   \<and> entry example_world ''/srv/dangling'' = None
   \<and> entry example_world ''/srv/sub'' =
       Some [(''name'', JStr ''sub''), (''path'', JStr ''/srv/sub''), (''is_file'', JBool False)]
   \<and> returned (list_files example_world \<lparr>directory = ''/srv'', pattern = ''*''\<rparr>) =
       [(''directory'', JStr ''/srv''),
        (''pattern'', JStr ''*''),
        (''files'', JList (map JDict
           (List.map_filter (entry example_world) [''/srv/a.txt'', ''/srv/dangling'', ''/srv/sub'']))),
        (''count'', JInt (int (length
           (List.map_filter (entry example_world) [''/srv/a.txt'', ''/srv/dangling'', ''/srv/sub'']))))]"
proof -
  have k: "has_key [(''directory'', JStr ''/srv''),
          (''pattern'', JStr ''*''),
          (''files'',
             JList [JDict [(''name'', JStr ''a.txt''), (''path'', JStr ''/srv/a.txt''),
                           (''size'', JInt 12), (''modified'', JStr ''1970-01-02T00:00:00''),
                           (''is_file'', JBool True)],
                    JDict [(''name'', JStr ''sub''), (''path'', JStr ''/srv/sub''),
                           (''is_file'', JBool False)]]),
          (''count'', JInt (2::int))] ''files''"
    by (simp add: has_key_def)
  have e1: "entry example_world ''/srv/a.txt'' =
       Some [(''name'', JStr ''a.txt''), (''path'', JStr ''/srv/a.txt''), (''size'', JInt 12),
             (''modified'', JStr ''1970-01-02T00:00:00''), (''is_file'', JBool True)]"
    and e2: "entry example_world ''/srv/dangling'' = None"
    and e3: "entry example_world ''/srv/sub'' =
       Some [(''name'', JStr ''sub''), (''path'', JStr ''/srv/sub''), (''is_file'', JBool False)]"
    by (simp_all add: entry_def example_world_def file_entry_def dir_entry_def path_name_def
          path_parts_def)
  from list_files_enumeration [OF example_listing k] k e1 e2 e3 show ?thesis
    by (simp add: example_listing example_matches returned_def has_key_def)
qed

text \<open>
  Claim C10. When \<^verbatim>\<open>list_files\<close> succeeds, a match of \<^verbatim>\<open>glob\<close> that is neither a regular
  file nor a directory is the path of no record of \<^verbatim>\<open>files\<close>, and \<^verbatim>\<open>count\<close> is the length
  of \<^verbatim>\<open>files\<close>, at most the number of matches; in the example state it is 2 for 3 matches.
\<close>

theorem list_files_omits_other_matches:
  "(\<forall>d. list_files w request = Inr d \<and> has_key d ''files'' \<longrightarrow>
      (\<exists>files. map_of d ''files'' = Some (JList (map JDict files))
         \<and> map_of d ''count'' = Some (JInt (int (length files)))
         \<and> length files \<le> length (gen_items (glob w (directory request) (pattern request)))
         \<and> (\<forall>p \<in> set (gen_items (glob w (directory request) (pattern request))).
               is_file w p = Inr False \<and> is_dir w p = Inr False \<longrightarrow>
               (\<forall>e \<in> set files. map_of e ''path'' \<noteq> Some (JStr p)))))
   \<and> map_of (returned (list_files example_world \<lparr>directory = ''/srv'', pattern = ''*''\<rparr>)) ''count''
        = Some (JInt 2)
   \<and> length (gen_items (glob example_world ''/srv'' ''*'')) = 3"
proof (intro conjI allI impI)
  fix d
  assume asm: "list_files w request = Inr d \<and> has_key d ''files''"
  let ?items = "gen_items (glob w (directory request) (pattern request))"
  from asm list_files_success [of w request d] obtain files where
    loop: "list_loop w (glob w (directory request) (pattern request)) [] = Inr files" and
    d: "d = [(''directory'', JStr (directory request)), (''pattern'', JStr (pattern request)),
             (''files'', JList (map JDict files)), (''count'', JInt (int (length files)))]"
    by blast
  from list_loop_Inr [OF loop] have files: "files = List.map_filter (entry w) ?items" by simp
  have len: "length files \<le> length ?items"
    unfolding files by (simp add: List.map_filter_def)
  have omit: "\<forall>p \<in> set ?items. is_file w p = Inr False \<and> is_dir w p = Inr False \<longrightarrow>
                (\<forall>e \<in> set files. map_of e ''path'' \<noteq> Some (JStr p))"
  proof (intro ballI impI)
    fix p e
    assume neither: "is_file w p = Inr False \<and> is_dir w p = Inr False" and e: "e \<in> set files"
    from neither have none: "entry w p = None" by (simp add: entry_def)
    from e obtain q where q: "entry w q = Some e"
      unfolding files by (auto simp add: List.map_filter_def)
    with none have "q \<noteq> p" by auto
    with entry_path [OF q] show "map_of e ''path'' \<noteq> Some (JStr p)" by simp
  qed
  from d len omit
  show "\<exists>files. map_of d ''files'' = Some (JList (map JDict files))
         \<and> map_of d ''count'' = Some (JInt (int (length files)))
         \<and> length files \<le> length ?items
         \<and> (\<forall>p \<in> set ?items. is_file w p = Inr False \<and> is_dir w p = Inr False \<longrightarrow>
               (\<forall>e \<in> set files. map_of e ''path'' \<noteq> Some (JStr p)))"
    by (intro exI [of _ files]) simp
next
  show "map_of (returned (list_files example_world \<lparr>directory = ''/srv'', pattern = ''*''\<rparr>)) ''count''
        = Some (JInt 2)"
    by (simp add: example_listing returned_def)
next
  show "length (gen_items (glob example_world ''/srv'' ''*'')) = 3"
    by (simp add: example_matches)
qed

theorem list_files_omits_other_matches_witness:
  "has_key (returned (list_files example_world \<lparr>directory = ''/srv'', pattern = ''*''\<rparr>)) ''files''
   \<and> ''/srv/dangling'' \<in> set (gen_items (glob example_world ''/srv'' ''*''))
   \<and> is_file example_world ''/srv/dangling'' = Inr False
   \<and> is_dir example_world ''/srv/dangling'' = Inr False
   \<and> map_of (returned (list_files example_world \<lparr>directory = ''/srv'', pattern = ''*''\<rparr>)) ''count''
        = Some (JInt 2)"
  using list_files_omits_other_matches
          [of example_world "\<lparr>directory = ''/srv'', pattern = ''*''\<rparr>"]
  by (simp add: example_listing example_matches returned_def has_key_def)
    (simp add: example_world_def)


section \<open>No exception leaves calculator, list_files and echo\<close>

lemma calculator_returns: "\<exists>d. calculator ops request = Inr d"
  by (cases "calculator_try ops request") (simp_all add: calculator_def)

lemma list_files_returns: "\<exists>d. list_files w request = Inr d"
  by (cases "list_files_try w request") (simp_all add: list_files_def)

lemma list_files_caught:
  "list_files_try w request = Inl e \<Longrightarrow>
     list_files w request =
       Inr [(''error'', JStr (''File listing error: '' @ str_of e)),
            (''directory'', JStr (directory request)),
            (''pattern'', JStr (pattern request))]"
  by (simp add: list_files_def)
lemma example_empty_pattern:
  "list_files_try example_world \<lparr>directory = ''/srv'', pattern = ''''\<rparr> =
     Inl (Exception ''Unacceptable pattern'')"
  by (simp add: list_files_try_def example_world_def)

text \<open>
  Claim C1, as stated, fails for \<^verbatim>\<open>system_info\<close>: it has no handler, and when the working
  directory of the process has been removed the exception of \<^verbatim>\<open>os.getcwd()\<close> leaves the
  tool.
\<close>

theorem system_info_raises_counterexample:
  "system_info cwd_removed_world = Inl (Exception ''[Errno 2] No such file or directory'')"
  by (simp add: system_info_def cwd_removed_world_def example_world_def)

text \<open>
  Claim C1, amended. \<^verbatim>\<open>calculator\<close>, \<^verbatim>\<open>list_files\<close> and \<^verbatim>\<open>echo\<close> return a dictionary on
  every input and in every state; an exception raised in the body of \<^verbatim>\<open>list_files\<close> is
  turned into the error "File listing error: <detail>" with directory and pattern.
  \<^verbatim>\<open>system_info\<close> returns its response when \<^verbatim>\<open>os.getcwd()\<close> succeeds, and lets the
  exception through when it raises.
\<close>

theorem tools_return:
  "(\<exists>d. calculator ops request = Inr d)
   \<and> (\<exists>d. list_files w frequest = Inr d)
   \<and> (\<exists>d. echo w message = Inr d)
   \<and> (\<forall>e. list_files_try w frequest = Inl e \<longrightarrow>
         list_files w frequest =
           Inr [(''error'', JStr (''File listing error: '' @ str_of e)),
                (''directory'', JStr (directory frequest)),
                (''pattern'', JStr (pattern frequest))])
   \<and> (\<forall>cwd. getcwd w = Inr cwd \<longrightarrow> (\<exists>r. system_info w = Inr r))
   \<and> (\<forall>e. getcwd w = Inl e \<longrightarrow> system_info w = Inl e)"
proof (intro conjI allI impI)
  show "\<exists>d. calculator ops request = Inr d" by (rule calculator_returns)
  show "\<exists>d. list_files w frequest = Inr d" by (rule list_files_returns)
  show "\<exists>d. echo w message = Inr d" by (simp add: echo_def)
next
  fix e assume "list_files_try w frequest = Inl e"
  then show "list_files w frequest =
           Inr [(''error'', JStr (''File listing error: '' @ str_of e)),
                (''directory'', JStr (directory frequest)),
                (''pattern'', JStr (pattern frequest))]"
    by (rule list_files_caught)
next
  fix cwd assume "getcwd w = Inr cwd"
  then show "\<exists>r. system_info w = Inr r" by (simp add: system_info_def)
next
  fix e assume "getcwd w = Inl e"
  then show "system_info w = Inl e" by (simp add: system_info_def)
qed
theorem tools_return_witness:
  "list_files_try example_world \<lparr>directory = ''/srv'', pattern = ''''\<rparr> =
     Inl (Exception ''Unacceptable pattern'')
   \<and> list_files example_world \<lparr>directory = ''/srv'', pattern = ''''\<rparr> =
       Inr [(''error'', JStr ''File listing error: Unacceptable pattern''),
            (''directory'', JStr ''/srv''),
            (''pattern'', JStr '''')]
   \<and> getcwd example_world = Inr ''/srv''
   \<and> (\<exists>r. system_info example_world = Inr r)
   \<and> getcwd cwd_removed_world = Inl (Exception ''[Errno 2] No such file or directory'')
   \<and> system_info cwd_removed_world = Inl (Exception ''[Errno 2] No such file or directory'')"
proof -
  have g1: "getcwd example_world = Inr ''/srv''" by (simp add: example_world_def)
  have g2: "getcwd cwd_removed_world = Inl (Exception ''[Errno 2] No such file or directory'')"
    by (simp add: cwd_removed_world_def)
  from tools_return [of exact_ops "\<lparr>operation = ''add'', a = 2, b = 3\<rparr>" example_world
         "\<lparr>directory = ''/srv'', pattern = ''''\<rparr>" "''hi''"]
       tools_return [of exact_ops "\<lparr>operation = ''add'', a = 2, b = 3\<rparr>" cwd_removed_world
         "\<lparr>directory = ''/srv'', pattern = ''''\<rparr>" "''hi''"]
       example_empty_pattern g1 g2
  show ?thesis by simp
qed


section \<open>The two variants of an envelope\<close>

lemma calculator_shape:
  "calculator ops request =
     Inr (if operation request \<notin> set supported then
            [(''error'', JStr (''Unknown operation: '' @ operation request)),
             (''supported_operations'', JList (map JStr supported))]
          else if operation request = ''divide'' \<and> eq_zero ops (b request) then
            [(''error'', JStr ''Division by zero is not allowed''),
             (''operation'', JStr (operation request)),
             (''inputs'', calc_inputs request)]
          else
            [(''result'', JFloat (arith ops (operation request) (a request) (b request))),
             (''operation'', JStr (operation request)),
             (''inputs'', calc_inputs request)])"
  by (simp add: calculator_def calculator_try_def calc_success_def truediv_def supported_def
        arith_def)

lemma list_files_shape:
  "(\<exists>msg. list_files w request =
       Inr [(''error'', JStr msg), (''directory'', JStr (directory request))]
       \<and> \<not> isl (list_files_try w request))
   \<or> (\<exists>msg. list_files w request =
       Inr [(''error'', JStr msg), (''directory'', JStr (directory request)),
            (''pattern'', JStr (pattern request))]
       \<and> isl (list_files_try w request))
   \<or> (\<exists>files. list_files w request =
       Inr [(''directory'', JStr (directory request)), (''pattern'', JStr (pattern request)),
            (''files'', JList (map JDict files)), (''count'', JInt (int (length files)))])"
  by (auto simp add: list_files_def list_files_try_def split: sum.splits bool.splits)

text \<open>
  Claim C3, as stated, fails for \<^verbatim>\<open>system_info\<close>: when the working directory of the process
  has been removed the invocation ends with an exception and populates neither variant.
\<close>

theorem system_info_neither_variant_counterexample:
  "\<not> error_variant (system_info_envelope cwd_removed_world)
   \<and> \<not> success_variant SystemInfo (system_info_envelope cwd_removed_world)"
  by (simp add: error_variant_def success_variant_def system_info_envelope_def system_info_def
        cwd_removed_world_def)

text \<open>
  Claim C3, amended. On every input and in every state, \<^verbatim>\<open>calculator\<close> and \<^verbatim>\<open>list_files\<close>
  populate exactly one variant (the key \<^verbatim>\<open>error\<close>, or all the fields of the tool's success
  payload), and \<^verbatim>\<open>echo\<close> populates the Success variant. \<^verbatim>\<open>system_info\<close> populates the
  Success variant and not the Error variant when \<^verbatim>\<open>os.getcwd()\<close> succeeds, and neither variant
  when \<^verbatim>\<open>os.getcwd()\<close> raises.
\<close>

theorem envelope_exactly_one_variant:
  "error_variant (calculator ops request) \<noteq> success_variant Calculator (calculator ops request)
   \<and> error_variant (list_files w frequest) \<noteq> success_variant ListFiles (list_files w frequest)
   \<and> \<not> error_variant (echo w message) \<and> success_variant Echo (echo w message)
   \<and> (\<forall>cwd. getcwd w = Inr cwd \<longrightarrow>
         \<not> error_variant (system_info_envelope w)
         \<and> success_variant SystemInfo (system_info_envelope w))
   \<and> (\<forall>e. getcwd w = Inl e \<longrightarrow>
         \<not> error_variant (system_info_envelope w)
         \<and> \<not> success_variant SystemInfo (system_info_envelope w))"
proof (intro conjI allI impI)
  show "error_variant (calculator ops request) \<noteq> success_variant Calculator (calculator ops request)"
    unfolding calculator_shape
    by (simp add: error_variant_def success_variant_def is_error_def is_success_def has_key_def)
  show "error_variant (list_files w frequest) \<noteq> success_variant ListFiles (list_files w frequest)"
    using list_files_shape [of w frequest]
    by (elim disjE exE conjE)
      (simp_all add: error_variant_def success_variant_def is_error_def is_success_def has_key_def)
  show "\<not> error_variant (echo w message)"
    by (simp add: echo_def error_variant_def is_error_def has_key_def)
  show "success_variant Echo (echo w message)"
    by (simp add: echo_def success_variant_def is_success_def has_key_def)
next
  fix cwd assume "getcwd w = Inr cwd"
  then show "\<not> error_variant (system_info_envelope w)"
    and "success_variant SystemInfo (system_info_envelope w)"
    by (simp_all add: system_info_envelope_def system_info_def error_variant_def
          success_variant_def model_dump_def is_error_def is_success_def has_key_def)
next
  fix e assume "getcwd w = Inl e"
  then show "\<not> error_variant (system_info_envelope w)"
    and "\<not> success_variant SystemInfo (system_info_envelope w)"
    by (simp_all add: system_info_envelope_def system_info_def error_variant_def
          success_variant_def)
qed

theorem envelope_exactly_one_variant_witness:
  "getcwd example_world = Inr ''/srv''
   \<and> success_variant SystemInfo (system_info_envelope example_world)
   \<and> \<not> error_variant (system_info_envelope example_world)
   \<and> getcwd cwd_removed_world = Inl (Exception ''[Errno 2] No such file or directory'')
   \<and> \<not> success_variant SystemInfo (system_info_envelope cwd_removed_world)
   \<and> error_variant (calculator exact_ops \<lparr>operation = ''divide'', a = 1, b = 0\<rparr>)
   \<and> \<not> success_variant Calculator (calculator exact_ops \<lparr>operation = ''divide'', a = 1, b = 0\<rparr>)
   \<and> \<not> error_variant (list_files example_world \<lparr>directory = ''/srv'', pattern = ''*''\<rparr>)
   \<and> success_variant ListFiles (list_files example_world \<lparr>directory = ''/srv'', pattern = ''*''\<rparr>)"
proof -
  have g1: "getcwd example_world = Inr ''/srv''" by (simp add: example_world_def)
  have g2: "getcwd cwd_removed_world = Inl (Exception ''[Errno 2] No such file or directory'')"
    by (simp add: cwd_removed_world_def)
  have calc: "calculator exact_ops \<lparr>operation = ''divide'', a = 1, b = 0\<rparr> =
      Inr [(''error'', JStr ''Division by zero is not allowed''),
           (''operation'', JStr ''divide''),
           (''inputs'', JDict [(''a'', JFloat 1), (''b'', JFloat 0)])]"
    by (simp add: calculator_shape supported_def exact_ops_def calc_inputs_def)
  from envelope_exactly_one_variant
         [of exact_ops "\<lparr>operation = ''divide'', a = 1, b = 0\<rparr>" example_world
             "\<lparr>directory = ''/srv'', pattern = ''*''\<rparr>" "''hi''"]
       envelope_exactly_one_variant
         [of exact_ops "\<lparr>operation = ''divide'', a = 1, b = 0\<rparr>" cwd_removed_world
             "\<lparr>directory = ''/srv'', pattern = ''*''\<rparr>" "''hi''"]
       g1 g2 calc
  show ?thesis
    by (simp add: example_listing)
      (simp add: error_variant_def success_variant_def is_error_def is_success_def has_key_def)
qed


section \<open>What an Error payload carries\<close>

lemma example_unknown_operation:
  "calculator exact_ops \<lparr>operation = ''mod'', a = 1, b = 2\<rparr> =
     Inr [(''error'', JStr ''Unknown operation: mod''),
          (''supported_operations'',
             JList [JStr ''add'', JStr ''subtract'', JStr ''multiply'', JStr ''divide''])]"
  by (simp add: calculator_shape supported_def)

lemma example_missing_directory:
  "list_files example_world \<lparr>directory = ''/nonexistent'', pattern = ''*.py''\<rparr> =
     Inr [(''error'', JStr ''Directory does not exist: /nonexistent''),
          (''directory'', JStr ''/nonexistent'')]"
  by (simp add: list_files_def list_files_try_def example_world_def)

lemma example_not_a_directory:
  "list_files example_world \<lparr>directory = ''/etc/hosts'', pattern = ''*.py''\<rparr> =
     Inr [(''error'', JStr ''Path is not a directory: /etc/hosts''),
          (''directory'', JStr ''/etc/hosts'')]"
  by (simp add: list_files_def list_files_try_def example_world_def)

lemma calculator_error_contents:
  assumes "calculator ops request = Inr d" and "is_error d"
  shows "(operation request = ''divide'' \<and> eq_zero ops (b request)
         \<and> d = [(''error'', JStr ''Division by zero is not allowed''),
                 (''operation'', JStr (operation request)),
                 (''inputs'', JDict [(''a'', JFloat (a request)), (''b'', JFloat (b request))])])
      \<or> (operation request \<notin> set supported
         \<and> d = [(''error'', JStr (''Unknown operation: '' @ operation request)),
                 (''supported_operations'', JList (map JStr supported))])"
proof (cases "operation request \<in> set supported")
  case False
  with assms(1) show ?thesis by (simp add: calculator_shape)
next
  case True
  show ?thesis
  proof (cases "operation request = ''divide'' \<and> eq_zero ops (b request)")
    case True
    with \<open>operation request \<in> set supported\<close> assms(1) show ?thesis
      by (simp add: calculator_shape calc_inputs_def)
  next
    case False
    with \<open>operation request \<in> set supported\<close> assms(1)
    have "d = [(''result'', JFloat (arith ops (operation request) (a request) (b request))),
               (''operation'', JStr (operation request)),
               (''inputs'', calc_inputs request)]"
      by (simp add: calculator_shape)
    with assms(2) show ?thesis by (simp add: is_error_def has_key_def)
  qed
qed

lemma list_files_error_contents:
  assumes run: "list_files w request = Inr d" and err: "is_error d"
  shows "(\<exists>msg. map_of d ''error'' = Some (JStr msg))
      \<and> map_of d ''directory'' = Some (JStr (directory request))
      \<and> (if isl (list_files_try w request)
          then map_of d ''pattern'' = Some (JStr (pattern request))
          else \<not> has_key d ''pattern'')"
proof -
  from list_files_shape [of w request] run
  consider
    (early) msg where
      "d = [(''error'', JStr msg), (''directory'', JStr (directory request))]"
      "\<not> isl (list_files_try w request)"
  | (caught) msg where
      "d = [(''error'', JStr msg), (''directory'', JStr (directory request)),
            (''pattern'', JStr (pattern request))]"
      "isl (list_files_try w request)"
  | (listed) files where
      "d = [(''directory'', JStr (directory request)), (''pattern'', JStr (pattern request)),
            (''files'', JList (map JDict files)), (''count'', JInt (int (length files)))]"
    by fastforce
  then show ?thesis
  proof cases
    case early
    then show ?thesis by (simp add: has_key_def)
  next
    case caught
    then show ?thesis by simp
  next
    case listed
    with err show ?thesis by (simp add: is_error_def has_key_def)
  qed
qed

text \<open>
  Claim C4, as stated, fails: the error of \<^verbatim>\<open>calculator\<close> for the unknown operation
  \<^verbatim>\<open>mod\<close> has neither the key \<^verbatim>\<open>inputs\<close> nor the key \<^verbatim>\<open>operation\<close>, and the errors of
  \<^verbatim>\<open>list_files\<close> for a missing path and for a path that is not a directory do not have the
  key \<^verbatim>\<open>pattern\<close>.
\<close>

theorem error_payload_inputs_counterexample:
  "is_error (returned (calculator exact_ops \<lparr>operation = ''mod'', a = 1, b = 2\<rparr>))
   \<and> \<not> has_key (returned (calculator exact_ops \<lparr>operation = ''mod'', a = 1, b = 2\<rparr>)) ''inputs''
   \<and> \<not> has_key (returned (calculator exact_ops \<lparr>operation = ''mod'', a = 1, b = 2\<rparr>)) ''operation''
   \<and> is_error (returned (list_files example_world
          \<lparr>directory = ''/nonexistent'', pattern = ''*.py''\<rparr>))
   \<and> \<not> has_key (returned (list_files example_world
          \<lparr>directory = ''/nonexistent'', pattern = ''*.py''\<rparr>)) ''pattern''
   \<and> is_error (returned (list_files example_world
          \<lparr>directory = ''/etc/hosts'', pattern = ''*.py''\<rparr>))
   \<and> \<not> has_key (returned (list_files example_world
          \<lparr>directory = ''/etc/hosts'', pattern = ''*.py''\<rparr>)) ''pattern''"
  by (simp add: example_unknown_operation example_missing_directory example_not_a_directory
        returned_def is_error_def has_key_def)

text \<open>
  Claim C4, amended. An Error payload of \<^verbatim>\<open>calculator\<close> is either the division-by-zero
  error, which echoes the operation and both operands, or the unknown-operation error, which
  holds the message naming the operation and the list of supported operations, and nothing
  else. An Error payload of \<^verbatim>\<open>list_files\<close> holds a message and the directory; it holds the
  pattern exactly when it comes from the exception handler.
\<close>

theorem error_payload_contents:
  "(\<forall>d. calculator ops request = Inr d \<and> is_error d \<longrightarrow>
      (operation request = ''divide'' \<and> eq_zero ops (b request)
         \<and> d = [(''error'', JStr ''Division by zero is not allowed''),
                 (''operation'', JStr (operation request)),
                 (''inputs'', JDict [(''a'', JFloat (a request)), (''b'', JFloat (b request))])])
      \<or> (operation request \<notin> set supported
         \<and> d = [(''error'', JStr (''Unknown operation: '' @ operation request)),
                 (''supported_operations'', JList (map JStr supported))]))
   \<and> (\<forall>d. list_files w frequest = Inr d \<and> is_error d \<longrightarrow>
      (\<exists>msg. map_of d ''error'' = Some (JStr msg))
      \<and> map_of d ''directory'' = Some (JStr (directory frequest))
      \<and> (if isl (list_files_try w frequest)
          then map_of d ''pattern'' = Some (JStr (pattern frequest))
          else \<not> has_key d ''pattern''))"
proof (intro conjI allI impI)
  fix d
  assume "calculator ops request = Inr d \<and> is_error d"
  then have "calculator ops request = Inr d" and "is_error d" by simp_all
  then show "(operation request = ''divide'' \<and> eq_zero ops (b request)
         \<and> d = [(''error'', JStr ''Division by zero is not allowed''),
                 (''operation'', JStr (operation request)),
                 (''inputs'', JDict [(''a'', JFloat (a request)), (''b'', JFloat (b request))])])
      \<or> (operation request \<notin> set supported
         \<and> d = [(''error'', JStr (''Unknown operation: '' @ operation request)),
                 (''supported_operations'', JList (map JStr supported))])"
    by (rule calculator_error_contents)
next
  fix d
  assume "list_files w frequest = Inr d \<and> is_error d"
  then have "list_files w frequest = Inr d" and "is_error d" by simp_all
  from list_files_error_contents [OF this]
  show "\<exists>msg. map_of d ''error'' = Some (JStr msg)"
    and "map_of d ''directory'' = Some (JStr (directory frequest))"
    and "if isl (list_files_try w frequest)
          then map_of d ''pattern'' = Some (JStr (pattern frequest))
          else \<not> has_key d ''pattern''"
    by simp_all
qed

theorem error_payload_contents_witness:
  "is_error (returned (calculator exact_ops \<lparr>operation = ''divide'', a = 1, b = 0\<rparr>))
   \<and> returned (calculator exact_ops \<lparr>operation = ''divide'', a = 1, b = 0\<rparr>) =
       [(''error'', JStr ''Division by zero is not allowed''),
        (''operation'', JStr ''divide''),
        (''inputs'', JDict [(''a'', JFloat 1), (''b'', JFloat 0)])]
   \<and> is_error (returned (list_files example_world \<lparr>directory = ''/srv'', pattern = ''''\<rparr>))
   \<and> isl (list_files_try example_world \<lparr>directory = ''/srv'', pattern = ''''\<rparr>)
   \<and> map_of (returned (list_files example_world \<lparr>directory = ''/srv'', pattern = ''''\<rparr>))
        ''pattern'' = Some (JStr '''')
   \<and> is_error (returned (list_files example_world
          \<lparr>directory = ''/nonexistent'', pattern = ''*.py''\<rparr>))
   \<and> \<not> isl (list_files_try example_world \<lparr>directory = ''/nonexistent'', pattern = ''*.py''\<rparr>)
   \<and> map_of (returned (list_files example_world
          \<lparr>directory = ''/nonexistent'', pattern = ''*.py''\<rparr>)) ''directory''
        = Some (JStr ''/nonexistent'')"
proof -
  have calc: "calculator exact_ops \<lparr>operation = ''divide'', a = 1, b = 0\<rparr> =
      Inr [(''error'', JStr ''Division by zero is not allowed''),
           (''operation'', JStr ''divide''),
           (''inputs'', JDict [(''a'', JFloat 1), (''b'', JFloat 0)])]"
    by (simp add: calculator_shape supported_def exact_ops_def calc_inputs_def)
  have raised: "list_files example_world \<lparr>directory = ''/srv'', pattern = ''''\<rparr> =
       Inr [(''error'', JStr ''File listing error: Unacceptable pattern''),
            (''directory'', JStr ''/srv''),
            (''pattern'', JStr '''')]"
    by (simp add: list_files_def example_empty_pattern)
  have notry: "\<not> isl (list_files_try example_world
                 \<lparr>directory = ''/nonexistent'', pattern = ''*.py''\<rparr>)"
    by (simp add: list_files_try_def example_world_def)
  from error_payload_contents
         [of exact_ops "\<lparr>operation = ''divide'', a = 1, b = 0\<rparr>" example_world
             "\<lparr>directory = ''/srv'', pattern = ''''\<rparr>"]
       error_payload_contents
         [of exact_ops "\<lparr>operation = ''divide'', a = 1, b = 0\<rparr>" example_world
             "\<lparr>directory = ''/nonexistent'', pattern = ''*.py''\<rparr>"]
       calc raised notry example_missing_directory example_empty_pattern
  show ?thesis
    by (simp add: returned_def is_error_def has_key_def)
qed


section \<open>What the result of a tool depends on\<close>

lemma list_loop_cong:
  assumes "is_file w1 = is_file w2" and "is_dir w1 = is_dir w2" and "stat w1 = stat w2"
    and "fromtimestamp_isoformat w1 = fromtimestamp_isoformat w2"
  shows "list_loop w1 g acc = list_loop w2 g acc"
  using assms by (induction g arbitrary: acc) (simp_all split: sum.splits bool.splits)

lemma list_files_cong:
  assumes "exists w1 = exists w2" and "is_dir w1 = is_dir w2" and "is_file w1 = is_file w2"
    and "stat w1 = stat w2" and "glob w1 = glob w2"
    and "fromtimestamp_isoformat w1 = fromtimestamp_isoformat w2"
  shows "list_files w1 request = list_files w2 request"
proof -
  have loop: "list_loop w1 g [] = list_loop w2 g []" for g
    using assms by (intro list_loop_cong) simp_all
  have "list_files_try w1 request = list_files_try w2 request"
    unfolding list_files_try_def assms(1) assms(2) assms(5) loop ..
  then show ?thesis by (simp add: list_files_def)
qed

text \<open>
  Claim C9, as stated, fails: the two example states have the same filesystem, the same
  environment variables and the same working directory, and differ in the reading of the
  clock only; \<^verbatim>\<open>echo("hi")\<close> and \<^verbatim>\<open>system_info()\<close> return different results in them.
\<close>

theorem clock_counterexample:
  "exists later_world = exists example_world
   \<and> is_dir later_world = is_dir example_world
   \<and> is_file later_world = is_file example_world
   \<and> stat later_world = stat example_world
   \<and> glob later_world = glob example_world
   \<and> environ later_world = environ example_world
   \<and> getcwd later_world = getcwd example_world
   \<and> echo later_world ''hi'' \<noteq> echo example_world ''hi''
   \<and> system_info later_world \<noteq> system_info example_world"
  by (simp add: later_world_def echo_def system_info_def) (simp add: example_world_def)

text \<open>
  Claim C9, amended. The result of \<^verbatim>\<open>echo\<close> is fixed by the message and the reading of the
  clock; the result of \<^verbatim>\<open>system_info\<close> by the environment variables, the working
  directory, the clock and the constants of the runtime; the result of \<^verbatim>\<open>list_files\<close> by
  the request and the filesystem (with the conversion of timestamps), not by the clock. Two
  invocations that differ in the clock only agree on everything but the field
  \<^verbatim>\<open>timestamp\<close>. \<^verbatim>\<open>calculator\<close> reads no state at all: it is a function of its request.
\<close>

theorem tools_deterministic:
  "(datetime_now w1 = datetime_now w2 \<longrightarrow> echo w1 message = echo w2 message)
   \<and> (environ w1 = environ w2 \<and> getcwd w1 = getcwd w2 \<and> datetime_now w1 = datetime_now w2
        \<and> sys_version w1 = sys_version w2 \<and> platform_platform w1 = platform_platform w2 \<longrightarrow>
      system_info w1 = system_info w2)
   \<and> (exists w1 = exists w2 \<and> is_dir w1 = is_dir w2 \<and> is_file w1 = is_file w2
        \<and> stat w1 = stat w2 \<and> glob w1 = glob w2
        \<and> fromtimestamp_isoformat w1 = fromtimestamp_isoformat w2 \<longrightarrow>
      list_files w1 frequest = list_files w2 frequest)
   \<and> map_sum id (AList.delete ''timestamp'') (echo (w1\<lparr>datetime_now := t\<rparr>) message) =
       map_sum id (AList.delete ''timestamp'') (echo w1 message)
   \<and> map_sum id (\<lambda>r. r\<lparr>timestamp := []\<rparr>) (system_info (w1\<lparr>datetime_now := t\<rparr>)) =
       map_sum id (\<lambda>r. r\<lparr>timestamp := []\<rparr>) (system_info w1)"
proof (intro conjI impI)
  assume "datetime_now w1 = datetime_now w2"
  then show "echo w1 message = echo w2 message" by (simp add: echo_def)
next
  assume "environ w1 = environ w2 \<and> getcwd w1 = getcwd w2 \<and> datetime_now w1 = datetime_now w2
        \<and> sys_version w1 = sys_version w2 \<and> platform_platform w1 = platform_platform w2"
  then show "system_info w1 = system_info w2"
    by (cases "getcwd w2") (simp_all add: system_info_def)
next
  assume "exists w1 = exists w2 \<and> is_dir w1 = is_dir w2 \<and> is_file w1 = is_file w2
        \<and> stat w1 = stat w2 \<and> glob w1 = glob w2
        \<and> fromtimestamp_isoformat w1 = fromtimestamp_isoformat w2"
  then show "list_files w1 frequest = list_files w2 frequest"
    by (intro list_files_cong) simp_all
next
  show "map_sum id (AList.delete ''timestamp'') (echo (w1\<lparr>datetime_now := t\<rparr>) message) =
       map_sum id (AList.delete ''timestamp'') (echo w1 message)"
    by (simp add: echo_def)
next
  show "map_sum id (\<lambda>r. r\<lparr>timestamp := []\<rparr>) (system_info (w1\<lparr>datetime_now := t\<rparr>)) =
       map_sum id (\<lambda>r. r\<lparr>timestamp := []\<rparr>) (system_info w1)"
    by (cases "getcwd w1") (simp_all add: system_info_def)
qed

theorem tools_deterministic_witness:
  "datetime_now (example_world\<lparr>glob := \<lambda>d pat. Stop\<rparr>) = datetime_now example_world
   \<and> echo (example_world\<lparr>glob := \<lambda>d pat. Stop\<rparr>) ''hi'' = echo example_world ''hi''
   \<and> system_info (example_world\<lparr>glob := \<lambda>d pat. Stop\<rparr>) = system_info example_world
   \<and> datetime_now later_world \<noteq> datetime_now example_world
   \<and> list_files later_world \<lparr>directory = ''/srv'', pattern = ''*''\<rparr> =
       list_files example_world \<lparr>directory = ''/srv'', pattern = ''*''\<rparr>"
  using tools_deterministic
          [of "example_world\<lparr>glob := \<lambda>d pat. Stop\<rparr>" example_world "''hi''"
              "\<lparr>directory = ''/srv'', pattern = ''*''\<rparr>"]
        tools_deterministic
          [of later_world example_world "''hi''" "\<lparr>directory = ''/srv'', pattern = ''*''\<rparr>"]
  by (simp add: later_world_def) (simp add: example_world_def)

end
